theory Spec2Isabelle
  imports Main
begin

section \<open>The Pi-hole API client (src/api/pihole.py)\<close>

text \<open>
  A Python \<open>str\<close> is represented by the list of its UTF-8 bytes (\<open>string\<close>).
  Every character the code and \<open>urllib.parse\<close> look for is ASCII, and no byte of a
  multi-byte UTF-8 sequence is ASCII, so searching, slicing at a found position,
  concatenation and the emptiness test agree with Python's on code points.
\<close>

subsection \<open>Data\<close>

text \<open>
  The values of the \<open>params\<close> dictionary: \<open>disable_time\<close> is \<open>Union[int, float]\<close>,
  kept abstract as the type \<open>'n\<close>; \<open>api_key\<close> is a \<open>str\<close>.
  A \<open>dict\<close> literal is an association list in insertion order.
\<close>

datatype 'n pvalue = PNum 'n | PStr string

type_synonym 'n params = "(string \<times> 'n pvalue) list"

type_synonym headers = "(string \<times> string) list"

text \<open>The arguments of one call \<open>requests.get(url, params=params, headers=headers)\<close>;
  \<open>None\<close> is Python's \<open>None\<close>.\<close>

record 'n request =
  req_url :: string
  req_params :: "'n params option"
  req_headers :: "headers option"

text \<open>The fields of a \<open>requests.Response\<close> that the code or the library methods it
  calls read.\<close>

record response =
  status_code :: int
  reason :: string
  resp_url :: string
  content :: string

text \<open>
  The exceptions that can leave the methods of the class.
  \<open>HTTPError\<close> is \<open>requests.exceptions.HTTPError\<close>; \<open>ValueError\<close> and
  \<open>RecursionError\<close> are the builtins.
  \<open>TransportError\<close> stands for an exception raised by \<open>requests.get\<close> itself
  (\<open>ConnectionError\<close>, \<open>Timeout\<close>, \<open>MissingSchema\<close>, ...): none of these classes
  derives from \<open>requests.exceptions.HTTPError\<close>, which the library raises in
  \<open>raise_for_status\<close> only.
\<close>

datatype py_error =
    HTTPError string
  | ValueError string
  | RecursionError string
  | TransportError string

text \<open>
  The exceptions of \<open>response.json()\<close>. It raises
  \<open>requests.exceptions.JSONDecodeError\<close> when the decoder rejects the body. Two other
  exceptions of the decoder pass through it as they are: the builtin \<open>ValueError\<close> of
  an integer literal longer than the interpreter's digit limit, and \<open>RecursionError\<close>
  on a body nested deeper than the recursion limit. Each carries its message.
\<close>

datatype json_exception =
    JSONDecodeError string
  | Decoder_ValueError string
  | Decoder_RecursionError string

text \<open>The calls into the \<open>requests\<close> library, logged in the order they are made.\<close>

datatype 'n event =
    Requests_get "'n request"
  | Raise_for_status response
  | Response_json response

text \<open>
  What the library does is not code of the repository and is a parameter:
  \<open>http_get\<close> is the outcome of \<open>requests.get\<close> (an exception or a response) given
  everything that was called before and the request; \<open>json_loads\<close> is what
  \<open>response.json()\<close> makes of a body, the decoded value or one of its exceptions.
\<close>

record ('n, 'j) library =
  http_get :: "'n event list \<Rightarrow> 'n request \<Rightarrow> string + response"
  json_loads :: "string \<Rightarrow> json_exception + 'j"

text \<open>\<open>class API\<close>: the two attributes set by \<open>__init__\<close>.\<close>

record API =
  api_url :: string
  api_key :: string

text \<open>The program state a method runs in: the object \<open>self\<close> and the log of library
  calls made so far.\<close>

record 'n state =
  self :: API
  calls :: "'n event list"

subsection \<open>Python's \<open>str\<close> of an \<open>int\<close>\<close>

definition digit_char :: "nat \<Rightarrow> char" where
  "digit_char d = char_of (48 + d)"

fun digits :: "nat \<Rightarrow> string" where
  "digits n = (if n < 10 then [digit_char n] else digits (n div 10) @ [digit_char (n mod 10)])"

declare digits.simps [simp del]

definition str_int :: "int \<Rightarrow> string" where
  "str_int i = (if i < 0 then CHR ''-'' # digits (nat (- i)) else digits (nat i))"

subsection \<open>The library calls\<close>

definition requests_get ::
  "('n, 'j) library \<Rightarrow> 'n request \<Rightarrow> 'n state \<Rightarrow> (string + response) \<times> 'n state" where
  "requests_get L req s =
     (http_get L (calls s) req, s\<lparr>calls := calls s @ [Requests_get req]\<rparr>)"

text \<open>
  \<open>Response.raise_for_status\<close> of \<open>requests\<close> (models.py): it raises \<open>HTTPError\<close> for
  a status code from 400 to 599 and returns \<open>None\<close> otherwise.
\<close>

definition raise_for_status :: "response \<Rightarrow> 'n state \<Rightarrow> (py_error + unit) \<times> 'n state" where
  "raise_for_status r s =
     ((if 400 \<le> status_code r \<and> status_code r < 500 then
         Inl (HTTPError (str_int (status_code r) @ '' Client Error: '' @ reason r
                          @ '' for url: '' @ resp_url r))
       else if 500 \<le> status_code r \<and> status_code r < 600 then
         Inl (HTTPError (str_int (status_code r) @ '' Server Error: '' @ reason r
                          @ '' for url: '' @ resp_url r))
       else Inr ()),
      s\<lparr>calls := calls s @ [Raise_for_status r]\<rparr>)"

definition response_json ::
  "('n, 'j) library \<Rightarrow> response \<Rightarrow> 'n state \<Rightarrow> (json_exception + 'j) \<times> 'n state" where
  "response_json L r s =
     (json_loads L (content r), s\<lparr>calls := calls s @ [Response_json r]\<rparr>)"

subsection \<open>The methods of \<open>API\<close>\<close>

definition API_init :: "string \<Rightarrow> string \<Rightarrow> API" where
  "API_init url key = \<lparr>api_url = url, api_key = key\<rparr>"

text \<open>
  \<open>make_api_call\<close>. The \<open>try\<close> block catches \<open>JSONDecodeError\<close> only, so an
  \<open>HTTPError\<close> of \<open>raise_for_status\<close> would leave the method as it is, and so do
  the other two exceptions of \<open>response.json()\<close>.
\<close>

definition make_api_call ::
  "('n, 'j) library \<Rightarrow> string \<Rightarrow> 'n params option \<Rightarrow> headers option \<Rightarrow> 'n state
     \<Rightarrow> (py_error + 'j) \<times> 'n state" where
  "make_api_call L endpoint params headers s =
     (let url = api_url (self s) @ endpoint in
      case requests_get L \<lparr>req_url = url, req_params = params, req_headers = headers\<rparr> s of
        (Inl x, s1) \<Rightarrow> (Inl (TransportError x), s1)
      | (Inr response, s1) \<Rightarrow>
          if status_code response = 200 then
            (case raise_for_status response s1 of
               (Inl e, s2) \<Rightarrow> (Inl e, s2)
             | (Inr u, s2) \<Rightarrow>
                 (case response_json L response s2 of
                    (Inr j, s3) \<Rightarrow> (Inr j, s3)
                  | (Inl (JSONDecodeError d), s3) \<Rightarrow>
                      (Inl (ValueError ''Invalid JSON response.''), s3)
                  | (Inl (Decoder_ValueError d), s3) \<Rightarrow> (Inl (ValueError d), s3)
                  | (Inl (Decoder_RecursionError d), s3) \<Rightarrow> (Inl (RecursionError d), s3)))
          else
            (Inl (HTTPError (''API call failed with status code ''
                               @ str_int (status_code response) @ ''.'')), s1))"

text \<open>\<open>disable_adblocker\<close>: \<open>except requests.exceptions.HTTPError\<close> is the only handler.\<close>

definition disable_params :: "'n \<Rightarrow> API \<Rightarrow> 'n params" where
  "disable_params disable_time a =
     [(''disable'', PNum disable_time), (''auth'', PStr (api_key a))]"

definition disable_adblocker ::
  "('n, 'j) library \<Rightarrow> 'n \<Rightarrow> 'n state \<Rightarrow> (py_error + bool) \<times> 'n state" where
  "disable_adblocker L disable_time s =
     (let params = disable_params disable_time (self s) in
      case make_api_call L ''/admin/api.php'' (Some params) None s of
        (Inr j, s') \<Rightarrow> (Inr True, s')
      | (Inl (HTTPError m), s') \<Rightarrow> (Inr False, s')
      | (Inl e, s') \<Rightarrow> (Inl e, s'))"

definition validate_api_key :: "string \<Rightarrow> bool" where
  "validate_api_key key = (length key > 0)"

subsection \<open>\<open>urllib.parse\<close> of the standard library\<close>

text \<open>
  \<open>validate_api_url\<close> is a call of \<open>urlparse\<close>, which is transcribed here from
  CPython 3.11 (Lib/urllib/parse.py, \<open>str\<close> input, default arguments \<open>scheme=''\<close> and
  \<open>allow_fragments=True\<close>). Two things it calls are parameters: the check of a
  bracketed host (\<open>_check_bracketed_host\<close>, built on the \<open>ipaddress\<close> module and a
  regular expression; \<open>Some msg\<close> when it raises \<open>ValueError(msg)\<close>) and
  \<open>unicodedata.normalize('NFKC', _)\<close>.
  Later releases check the whole bracketed network location
  (\<open>_check_bracketed_netloc\<close>) and raise on more inputs than this transcription, for
  instance on text before the opening bracket; on the inputs without a square bracket
  and on an unmatched bracket they do the same.
\<close>

record urllib =
  check_bracketed_host :: "string \<Rightarrow> string option"
  nfkc_normalize :: "string \<Rightarrow> string"

record split_result =
  scheme :: string
  netloc :: string
  path :: string
  query :: string
  fragment :: string

record parse_result = split_result +
  url_params :: string

definition uses_params :: "string list" where
  "uses_params = ['''', ''ftp'', ''hdl'', ''prospero'', ''http'', ''imap'',
                  ''https'', ''shttp'', ''rtsp'', ''rtsps'', ''rtspu'', ''sip'',
                  ''sips'', ''mms'', ''sftp'', ''tel'']"

definition scheme_chars :: string where
  "scheme_chars = ''abcdefghijklmnopqrstuvwxyz'' @ ''ABCDEFGHIJKLMNOPQRSTUVWXYZ''
                  @ ''0123456789'' @ ''+-.''"

text \<open>\<open>_WHATWG_C0_CONTROL_OR_SPACE\<close>: the characters 0 to 0x20.\<close>

definition WHATWG_C0_CONTROL_OR_SPACE :: "char \<Rightarrow> bool" where
  "WHATWG_C0_CONTROL_OR_SPACE c = ((of_char c :: nat) \<le> 32)"

text \<open>\<open>_UNSAFE_URL_BYTES_TO_REMOVE\<close>: tab, carriage return, line feed.\<close>

definition UNSAFE_URL_BYTES_TO_REMOVE :: string where
  "UNSAFE_URL_BYTES_TO_REMOVE = [CHR 0x09, CHR 0x0D, CHR 0x0A]"

definition isascii :: "char \<Rightarrow> bool" where
  "isascii c = ((of_char c :: nat) < 128)"

definition isalpha :: "char \<Rightarrow> bool" where
  "isalpha c = (let n = (of_char c :: nat) in (65 \<le> n \<and> n \<le> 90) \<or> (97 \<le> n \<and> n \<le> 122))"

definition lower :: "char \<Rightarrow> char" where
  "lower c = (let n = (of_char c :: nat) in if 65 \<le> n \<and> n \<le> 90 then char_of (n + 32) else c)"

text \<open>\<open>s.find(c)\<close>, \<open>s.find(c, start)\<close> and \<open>s.rfind(c)\<close>; \<open>None\<close> is Python's -1.\<close>

definition str_find :: "char \<Rightarrow> string \<Rightarrow> nat option" where
  "str_find c s = (if c \<in> set s then Some (length (takeWhile (\<lambda>d. d \<noteq> c) s)) else None)"

definition str_find_from :: "char \<Rightarrow> string \<Rightarrow> nat \<Rightarrow> nat option" where
  "str_find_from c s start = map_option (\<lambda>k. start + k) (str_find c (drop start s))"

definition str_rfind :: "char \<Rightarrow> string \<Rightarrow> nat option" where
  "str_rfind c s = map_option (\<lambda>k. length s - 1 - k) (str_find c (rev s))"

text \<open>\<open>s.split(c, 1)\<close> for a \<open>c\<close> that occurs in \<open>s\<close>; it is also
  \<open>s.partition(c)\<close> read at the indices 0 and 2.\<close>

definition split_once :: "char \<Rightarrow> string \<Rightarrow> string \<times> string" where
  "split_once c s = (takeWhile (\<lambda>d. d \<noteq> c) s, drop 1 (dropWhile (\<lambda>d. d \<noteq> c) s))"

text \<open>\<open>_splitparams\<close>. Its caller has checked that \<open>;\<close> occurs in \<open>url\<close>; without it
  the second \<open>find\<close> gives -1 and the slices are \<open>url[:-1]\<close> and \<open>url[0:]\<close>.\<close>

definition splitparams :: "string \<Rightarrow> string \<times> string" where
  "splitparams url =
     (if CHR ''/'' \<in> set url then
        (case str_find_from CHR '';'' url (the (str_rfind CHR ''/'' url)) of
           None \<Rightarrow> (url, '''')
         | Some i \<Rightarrow> (take i url, drop (i + 1) url))
      else
        (case str_find CHR '';'' url of
           None \<Rightarrow> (butlast url, url)
         | Some i \<Rightarrow> (take i url, drop (i + 1) url)))"

definition splitnetloc :: "string \<Rightarrow> nat \<Rightarrow> string \<times> string" where
  "splitnetloc url start =
     (let delim = fold (\<lambda>c delim. case str_find_from c url start of
                                     None \<Rightarrow> delim
                                   | Some wdelim \<Rightarrow> min delim wdelim)
                       ''/?#'' (length url)
      in (take (delim - start) (drop start url), drop delim url))"

definition remove_char :: "char \<Rightarrow> string \<Rightarrow> string" where
  "remove_char c s = filter (\<lambda>d. d \<noteq> c) s"

definition checknetloc :: "urllib \<Rightarrow> string \<Rightarrow> py_error + unit" where
  "checknetloc U nl =
     (if nl = [] \<or> list_all isascii nl then Inr ()
      else
        let n = remove_char CHR ''?'' (remove_char CHR ''#''
                  (remove_char CHR '':'' (remove_char CHR ''@'' nl)));
            netloc2 = nfkc_normalize U n
        in if n = netloc2 then Inr ()
           else if list_ex (\<lambda>c. c \<in> set netloc2) ''/?#@:'' then
             Inl (ValueError (''netloc '' @ [CHR 0x27] @ nl @ [CHR 0x27] @ '' contains invalid ''
                              @ ''characters under NFKC normalization''))
           else Inr ())"

definition urlsplit :: "urllib \<Rightarrow> string \<Rightarrow> py_error + split_result" where
  "urlsplit U url0 =
     (let url1 = dropWhile WHATWG_C0_CONTROL_OR_SPACE url0;
          url2 = fold remove_char UNSAFE_URL_BYTES_TO_REMOVE url1;
          (sch, url3) =
            (case str_find CHR '':'' url2 of
               None \<Rightarrow> ('''', url2)
             | Some i \<Rightarrow>
                 if i > 0 \<and> isascii (hd url2) \<and> isalpha (hd url2)
                    \<and> list_all (\<lambda>c. c \<in> set scheme_chars) (take i url2)
                 then (map lower (take i url2), drop (i + 1) url2)
                 else ('''', url2));
          finish = (\<lambda>nl url4.
            let (url5, frag) =
                  (if CHR ''#'' \<in> set url4 then split_once CHR ''#'' url4 else (url4, ''''));
                (url6, qry) =
                  (if CHR ''?'' \<in> set url5 then split_once CHR ''?'' url5 else (url5, ''''))
            in case checknetloc U nl of
                 Inl e \<Rightarrow> Inl e
               | Inr u \<Rightarrow> Inr \<lparr>scheme = sch, netloc = nl, path = url6,
                                query = qry, fragment = frag\<rparr>)
      in
      if take 2 url3 = ''//'' then
        (let (nl, url4) = splitnetloc url3 2;
             lb = (CHR ''['' \<in> set nl);
             rb = (CHR '']'' \<in> set nl)
         in if (lb \<and> \<not> rb) \<or> (rb \<and> \<not> lb) then Inl (ValueError ''Invalid IPv6 URL'')
            else if lb \<and> rb then
              (let bracketed_host =
                     fst (split_once CHR '']'' (snd (split_once CHR ''['' nl)))
               in case check_bracketed_host U bracketed_host of
                    Some msg \<Rightarrow> Inl (ValueError msg)
                  | None \<Rightarrow> finish nl url4)
            else finish nl url4)
      else finish '''' url3)"

definition urlparse :: "urllib \<Rightarrow> string \<Rightarrow> py_error + parse_result" where
  "urlparse U url =
     (case urlsplit U url of
        Inl e \<Rightarrow> Inl e
      | Inr r \<Rightarrow>
          let (url', ps) =
                (if scheme r \<in> set uses_params \<and> CHR '';'' \<in> set (path r)
                 then splitparams (path r) else (path r, ''''))
          in Inr \<lparr>scheme = scheme r, netloc = netloc r, path = url', query = query r,
                  fragment = fragment r, url_params = ps\<rparr>)"

text \<open>\<open>validate_api_url\<close> (a static method): \<open>all([scheme, netloc])\<close> is true when
  both strings are non-empty. An exception of \<open>urlparse\<close> is not caught.\<close>

definition validate_api_url :: "urllib \<Rightarrow> string \<Rightarrow> py_error + bool" where
  "validate_api_url U url =
     (case urlparse U url of
        Inl e \<Rightarrow> Inl e
      | Inr parsed_url \<Rightarrow> Inr (list_all (\<lambda>x. x \<noteq> '''') [scheme parsed_url, netloc parsed_url]))"


subsection \<open>Reading the log, and example inputs\<close>

text \<open>\<open>gets\<close> lists the requests of the \<open>requests.get\<close> calls in a log;
  \<open>the_request\<close> is the request \<open>make_api_call\<close> builds (lines 58 and 59 of the source).
  The example library answers by the host of the URL. Its decoder does what CPython's
  does on two bodies: \<open>not json\<close> is rejected, and a thousand opening brackets
  exceed the default recursion limit.\<close>

fun gets :: "'n event list \<Rightarrow> 'n request list" where
  "gets [] = []"
| "gets (Requests_get req # es) = req # gets es"
| "gets (e # es) = gets es"

definition the_request :: "API \<Rightarrow> string \<Rightarrow> 'n params option \<Rightarrow> headers option \<Rightarrow> 'n request" where
  "the_request a endpoint params headers =
     \<lparr>req_url = api_url a @ endpoint, req_params = params, req_headers = headers\<rparr>"

definition nested_body :: string where
  "nested_body = replicate 1000 CHR ''[''"

definition example_library :: "(int, string) library" where
  "example_library =
     \<lparr>http_get = (\<lambda>log req.
          if req_url req = ''http://down/admin/api.php'' then Inl ''ConnectionError''
          else if req_url req = ''http://forbidden/admin/api.php'' then
            Inr \<lparr>status_code = 403, reason = ''Forbidden'', resp_url = req_url req, content = ''''\<rparr>
          else if req_url req = ''http://garbled/admin/api.php'' then
            Inr \<lparr>status_code = 200, reason = ''OK'', resp_url = req_url req, content = ''not json''\<rparr>
          else if req_url req = ''http://nested/admin/api.php'' then
            Inr \<lparr>status_code = 200, reason = ''OK'', resp_url = req_url req, content = nested_body\<rparr>
          else
            Inr \<lparr>status_code = 200, reason = ''OK'', resp_url = req_url req, content = ''{}''\<rparr>),
      json_loads = (\<lambda>body.
          if body = ''not json'' then
            Inl (JSONDecodeError ''Expecting value: line 1 column 1 (char 0)'')
          else if body = nested_body then
            Inl (Decoder_RecursionError (''maximum recursion depth exceeded while decoding ''
                                           @ ''a JSON array from a unicode string''))
          else Inr body)\<rparr>"

definition example_state :: "string \<Rightarrow> int state" where
  "example_state url = \<lparr>self = API_init url ''key'', calls = []\<rparr>"

definition example_urllib :: urllib where
  "example_urllib =
     \<lparr>check_bracketed_host = (\<lambda>h. if h = ''::1'' then None else Some ''invalid address''),
      nfkc_normalize = (\<lambda>n. n)\<rparr>"

section \<open>Properties\<close>

subsection \<open>The decimal rendering is injective\<close>

lemma digit_char_inj: "a < 10 \<Longrightarrow> b < 10 \<Longrightarrow> digit_char a = digit_char b \<Longrightarrow> a = b"
proof -
  assume a: "a < 10" and b: "b < 10" and e: "digit_char a = digit_char b"
  from e have "(of_char (digit_char a) :: nat) = of_char (digit_char b)" by simp
  then have "(48 + a) mod 256 = (48 + b) mod 256" by (simp add: digit_char_def)
  with a b show "a = b" by simp
qed

lemma digits_small: "n < 10 \<Longrightarrow> digits n = [digit_char n]"
  by (subst digits.simps) simp

lemma digits_big: "\<not> n < 10 \<Longrightarrow> digits n = digits (n div 10) @ [digit_char (n mod 10)]"
  by (subst digits.simps) simp

lemma digits_length: "(length (digits n) = Suc 0) = (n < 10)"
proof (induction n rule: digits.induct)
  case (1 n)
  show ?case
  proof (cases "n < 10")
    case True
    then show ?thesis by (simp add: digits_small)
  next
    case False
    then have "digits n = digits (n div 10) @ [digit_char (n mod 10)]"
      by (simp add: digits_small digits_big)
    moreover have "digits (n div 10) \<noteq> []"
      by (subst digits.simps) simp
    ultimately show ?thesis using False by (cases "digits (n div 10)") simp_all
  qed
qed

lemma digits_inj: "digits n = digits m \<Longrightarrow> n = m"
proof (induction n arbitrary: m rule: digits.induct)
  case (1 n)
  show ?case
  proof (cases "n < 10")
    case True
    then have "length (digits n) = Suc 0" by (simp add: digits_length)
    with "1.prems" have m: "m < 10" by (simp add: digits_length)
    from True m "1.prems" have "digit_char n = digit_char m" by (simp add: digits_small digits_big)
    with True m show ?thesis by (rule digit_char_inj)
  next
    case False
    then have "length (digits n) \<noteq> Suc 0" by (simp add: digits_length)
    with "1.prems" have m: "\<not> m < 10" by (simp add: digits_length)
    from False m "1.prems"
    have "digits (n div 10) @ [digit_char (n mod 10)] = digits (m div 10) @ [digit_char (m mod 10)]"
      by (simp add: digits_small digits_big)
    then have d: "digits (n div 10) = digits (m div 10)"
      and l: "digit_char (n mod 10) = digit_char (m mod 10)" by simp_all
    from "1.IH" [OF False d] have "n div 10 = m div 10" .
    moreover from l have "n mod 10 = m mod 10" by (intro digit_char_inj) simp_all
    ultimately show ?thesis by (metis div_mult_mod_eq)
  qed
qed

lemma digits_hd: "hd (digits n) \<noteq> CHR ''-''"
proof (induction n rule: digits.induct)
  case (1 n)
  show ?case
  proof (cases "n < 10")
    case True
    have "(of_char (digit_char n) :: nat) \<noteq> of_char CHR ''-''"
      using True by (simp add: digit_char_def)
    then have "digit_char n \<noteq> CHR ''-''" by auto
    with True show ?thesis by (simp add: digits_small digits_big)
  next
    case False
    have ne: "digits (n div 10) \<noteq> []" by (subst digits.simps) simp
    from False have "digits n = digits (n div 10) @ [digit_char (n mod 10)]"
      by (simp add: digits_small digits_big)
    with ne "1.IH" [OF False] show ?thesis by simp
  qed
qed

lemma str_int_inj: "str_int a = str_int b \<Longrightarrow> a = b"
proof -
  assume e: "str_int a = str_int b"
  have ne: "\<And>n. digits n \<noteq> []" by (subst digits.simps) simp
  have hd: "\<And>n. digits n \<noteq> CHR ''-'' # xs" for xs
    using digits_hd by (metis list.sel(1))
  have hd2: "\<And>n. CHR ''-'' # xs \<noteq> digits n" for xs
    using digits_hd by (metis list.sel(1))
  show "a = b"
  proof (cases "a < 0")
    case True
    show ?thesis
    proof (cases "b < 0")
      case bneg: True
      with True e have "digits (nat (- a)) = digits (nat (- b))" by (simp add: str_int_def)
      then have "nat (- a) = nat (- b)" by (rule digits_inj)
      with True bneg show ?thesis by simp
    next
      case False
      with True e hd hd2 show ?thesis by (simp add: str_int_def)
    qed
  next
    case False
    show ?thesis
    proof (cases "b < 0")
      case True
      with False e hd hd2 show ?thesis by (simp add: str_int_def)
    next
      case bpos: False
      with False e have "digits (nat a) = digits (nat b)" by (simp add: str_int_def)
      then have "nat a = nat b" by (rule digits_inj)
      with False bpos show ?thesis by simp
    qed
  qed
qed

lemma str_int_403: "str_int 403 = ''403''"
  by code_simp

subsection \<open>\<open>make_api_call\<close> and \<open>disable_adblocker\<close> by cases\<close>

lemma gets_append: "gets (xs @ ys) = gets xs @ gets ys"
  by (induction xs rule: gets.induct) simp_all

lemma make_api_call_cases:
  "make_api_call L endpoint params headers s =
     (let req = the_request (self s) endpoint params headers in
      case http_get L (calls s) req of
        Inl x \<Rightarrow> (Inl (TransportError x), s\<lparr>calls := calls s @ [Requests_get req]\<rparr>)
      | Inr r \<Rightarrow>
          if status_code r = 200 then
            (case json_loads L (content r) of
               Inr j \<Rightarrow> Inr j
             | Inl (JSONDecodeError d) \<Rightarrow> Inl (ValueError ''Invalid JSON response.'')
             | Inl (Decoder_ValueError d) \<Rightarrow> Inl (ValueError d)
             | Inl (Decoder_RecursionError d) \<Rightarrow> Inl (RecursionError d),
             s\<lparr>calls := calls s @ [Requests_get req, Raise_for_status r, Response_json r]\<rparr>)
          else
            (Inl (HTTPError (''API call failed with status code ''
                               @ str_int (status_code r) @ ''.'')),
             s\<lparr>calls := calls s @ [Requests_get req]\<rparr>))"
  by (simp add: make_api_call_def requests_get_def raise_for_status_def response_json_def
      the_request_def Let_def split: sum.splits json_exception.splits)

lemma make_api_call_self: "self (snd (make_api_call L endpoint params headers s)) = self s"
  by (simp add: make_api_call_cases Let_def split: sum.splits json_exception.splits)

lemma make_api_call_gets:
  "gets (calls (snd (make_api_call L endpoint params headers s)))
     = gets (calls s) @ [the_request (self s) endpoint params headers]"
  by (simp add: make_api_call_cases Let_def gets_append split: sum.splits json_exception.splits)

lemma disable_adblocker_snd:
  "snd (disable_adblocker L t s)
     = snd (make_api_call L ''/admin/api.php'' (Some (disable_params t (self s))) None s)"
  by (simp add: disable_adblocker_def Let_def split: prod.splits sum.splits py_error.splits)

lemma disable_adblocker_fst:
  "fst (disable_adblocker L t s)
     = (case fst (make_api_call L ''/admin/api.php'' (Some (disable_params t (self s))) None s) of
          Inr j \<Rightarrow> Inr True
        | Inl (HTTPError m) \<Rightarrow> Inr False
        | Inl (ValueError m) \<Rightarrow> Inl (ValueError m)
        | Inl (RecursionError m) \<Rightarrow> Inl (RecursionError m)
        | Inl (TransportError x) \<Rightarrow> Inl (TransportError x))"
  by (simp add: disable_adblocker_def Let_def split: prod.splits sum.splits py_error.splits)

lemma nested_body_neq:
  "length b \<noteq> 1000 \<Longrightarrow> nested_body \<noteq> b"
  "length b \<noteq> 1000 \<Longrightarrow> b \<noteq> nested_body"
  by (auto simp: nested_body_def)

subsection \<open>\<open>validate_api_url\<close> on the inputs of the specification\<close>

lemma validate_example_1: "validate_api_url U ''http://pihole.local'' = Inr True"
  by code_simp

lemma validate_example_2: "validate_api_url U ''https://10.0.0.5:8080'' = Inr True"
  by code_simp

lemma validate_example_3: "validate_api_url U '''' = Inr False"
  by code_simp

lemma validate_example_4: "validate_api_url U ''pihole.local'' = Inr False"
  by code_simp

lemma validate_example_5: "validate_api_url U ''http://'' = Inr False"
  by code_simp

lemma validate_example_6: "validate_api_url example_urllib ''http://[::1]:8080/admin'' = Inr True"
  by code_simp

subsection \<open>The claims\<close>

text \<open>
  Claim C1. \<open>disable_adblocker\<close> returns \<open>True\<close> when \<open>make_api_call\<close> returns, returns
  \<open>False\<close> exactly when it raises \<open>HTTPError\<close>, which is when the response has a status
  other than 200, and lets the \<open>ValueError\<close> of an undecodable body, the other
  exceptions of the decoder and any exception of the transport through to its caller,
  unchanged.
\<close>

theorem disable_adblocker_outcome:
  "fst (disable_adblocker L t s)
     = (case http_get L (calls s)
               (the_request (self s) ''/admin/api.php'' (Some (disable_params t (self s))) None) of
          Inl x \<Rightarrow> Inl (TransportError x)
        | Inr r \<Rightarrow>
            if status_code r = 200 then
              (case json_loads L (content r) of
                 Inr j \<Rightarrow> Inr True
               | Inl (JSONDecodeError d) \<Rightarrow> Inl (ValueError ''Invalid JSON response.'')
               | Inl (Decoder_ValueError d) \<Rightarrow> Inl (ValueError d)
               | Inl (Decoder_RecursionError d) \<Rightarrow> Inl (RecursionError d))
            else Inr False)
   \<and> (fst (disable_adblocker L t s) = Inr False) =
       (\<exists>m. fst (make_api_call L ''/admin/api.php'' (Some (disable_params t (self s))) None s)
              = Inl (HTTPError m))
   \<and> (fst (disable_adblocker L t s) = Inr True) =
       (\<exists>j. fst (make_api_call L ''/admin/api.php'' (Some (disable_params t (self s))) None s)
              = Inr j)
   \<and> (fst (disable_adblocker L t s) = Inl (ValueError m)) =
       (fst (make_api_call L ''/admin/api.php'' (Some (disable_params t (self s))) None s)
          = Inl (ValueError m))
   \<and> (fst (disable_adblocker L t s) = Inl (RecursionError m)) =
       (fst (make_api_call L ''/admin/api.php'' (Some (disable_params t (self s))) None s)
          = Inl (RecursionError m))
   \<and> (fst (disable_adblocker L t s) = Inl (TransportError x)) =
       (fst (make_api_call L ''/admin/api.php'' (Some (disable_params t (self s))) None s)
          = Inl (TransportError x))"
proof -
  let ?c = "fst (make_api_call L ''/admin/api.php'' (Some (disable_params t (self s))) None s)"
  have a: "fst (disable_adblocker L t s)
     = (case http_get L (calls s)
               (the_request (self s) ''/admin/api.php'' (Some (disable_params t (self s))) None) of
          Inl x \<Rightarrow> Inl (TransportError x)
        | Inr r \<Rightarrow>
            if status_code r = 200 then
              (case json_loads L (content r) of
                 Inr j \<Rightarrow> Inr True
               | Inl (JSONDecodeError d) \<Rightarrow> Inl (ValueError ''Invalid JSON response.'')
               | Inl (Decoder_ValueError d) \<Rightarrow> Inl (ValueError d)
               | Inl (Decoder_RecursionError d) \<Rightarrow> Inl (RecursionError d))
            else Inr False)"
    by (simp add: disable_adblocker_fst make_api_call_cases Let_def
        split: sum.splits json_exception.splits)
  have b: "(fst (disable_adblocker L t s) = Inr False) = (\<exists>m. ?c = Inl (HTTPError m))"
    by (cases ?c) (auto simp: disable_adblocker_fst split: py_error.splits)
  have c: "(fst (disable_adblocker L t s) = Inr True) = (\<exists>j. ?c = Inr j)"
    by (cases ?c) (auto simp: disable_adblocker_fst split: py_error.splits)
  have d: "(fst (disable_adblocker L t s) = Inl (ValueError m)) = (?c = Inl (ValueError m))"
    by (cases ?c) (auto simp: disable_adblocker_fst split: py_error.splits)
  have e: "(fst (disable_adblocker L t s) = Inl (TransportError x)) = (?c = Inl (TransportError x))"
    by (cases ?c) (auto simp: disable_adblocker_fst split: py_error.splits)
  have f: "(fst (disable_adblocker L t s) = Inl (RecursionError m)) = (?c = Inl (RecursionError m))"
    by (cases ?c) (auto simp: disable_adblocker_fst split: py_error.splits)
  from a b c d e f show ?thesis by blast
qed

theorem disable_adblocker_outcome_witness:
  "fst (disable_adblocker example_library 30 (example_state ''http://pihole.local'')) = Inr True
   \<and> fst (disable_adblocker example_library 30 (example_state ''http://forbidden'')) = Inr False
   \<and> fst (disable_adblocker example_library 30 (example_state ''http://garbled''))
       = Inl (ValueError ''Invalid JSON response.'')
   \<and> fst (disable_adblocker example_library 30 (example_state ''http://down''))
       = Inl (TransportError ''ConnectionError'')
   \<and> fst (disable_adblocker example_library 30 (example_state ''http://nested''))
       = Inl (RecursionError (''maximum recursion depth exceeded while decoding ''
                                @ ''a JSON array from a unicode string''))"
  using disable_adblocker_outcome [of example_library 30 "example_state ''http://pihole.local''"]
    disable_adblocker_outcome [of example_library 30 "example_state ''http://nested''"]
    disable_adblocker_outcome [of example_library 30 "example_state ''http://forbidden''"]
    disable_adblocker_outcome [of example_library 30 "example_state ''http://garbled''"]
    disable_adblocker_outcome [of example_library 30 "example_state ''http://down''"]
  by (simp add: example_library_def example_state_def API_init_def the_request_def
      disable_params_def nested_body_neq)

text \<open>
  Claim C2. When the GET answers with status 200 and the body decodes as JSON,
  \<open>make_api_call\<close> returns the decoded value, not the response object.
\<close>

theorem make_api_call_returns_json:
  assumes "http_get L (calls s) (the_request (self s) endpoint params headers) = Inr r"
    and "status_code r = 200"
    and "json_loads L (content r) = Inr j"
  shows "fst (make_api_call L endpoint params headers s) = Inr j"
  using assms by (simp add: make_api_call_cases Let_def)

theorem make_api_call_returns_json_witness:
  "fst (make_api_call example_library ''/admin/api.php'' (Some [(''auth'', PStr ''x'')]) None
          (example_state ''http://pihole.local'')) = Inr ''{}''"
  by (rule make_api_call_returns_json
        [where r = "\<lparr>status_code = 200, reason = ''OK'',
                      resp_url = ''http://pihole.local/admin/api.php'', content = ''{}''\<rparr>"])
     (simp_all add: example_library_def example_state_def API_init_def the_request_def
       nested_body_neq)

text \<open>
  Claim C3. When the GET answers with a status other than 200, \<open>make_api_call\<close> raises
  \<open>HTTPError\<close> with the status code written in decimal in its message (by
  \<open>str_int_inj\<close> the message determines the code), and the only library call it has
  made is the GET: the body is never handed to the JSON decoder.
\<close>

theorem make_api_call_http_error:
  assumes "http_get L (calls s) (the_request (self s) endpoint params headers) = Inr r"
    and "status_code r \<noteq> 200"
  shows "make_api_call L endpoint params headers s
           = (Inl (HTTPError (''API call failed with status code ''
                                @ str_int (status_code r) @ ''.'')),
              s\<lparr>calls := calls s @ [Requests_get (the_request (self s) endpoint params headers)]\<rparr>)"
  using assms by (simp add: make_api_call_cases Let_def)

theorem make_api_call_http_error_witness:
  "make_api_call example_library ''/admin/api.php'' None None (example_state ''http://forbidden'')
     = (Inl (HTTPError ''API call failed with status code 403.''),
        \<lparr>self = \<lparr>api_url = ''http://forbidden'', api_key = ''key''\<rparr>,
         calls = [Requests_get \<lparr>req_url = ''http://forbidden/admin/api.php'',
                                 req_params = None, req_headers = None\<rparr>]\<rparr>)"
  using make_api_call_http_error [of example_library "example_state ''http://forbidden''"
      "''/admin/api.php''" None None
      "\<lparr>status_code = 403, reason = ''Forbidden'',
        resp_url = ''http://forbidden/admin/api.php'', content = ''''\<rparr>"]
  by (simp add: example_library_def example_state_def API_init_def the_request_def str_int_403)

text \<open>
  Claim C4, as amended. When the GET answers with status 200 and \<open>response.json()\<close>
  raises \<open>requests.exceptions.JSONDecodeError\<close>, \<open>make_api_call\<close> raises the builtin
  \<open>ValueError\<close> with the message \<open>Invalid JSON response.\<close>, full stop included,
  and never \<open>HTTPError\<close>.
\<close>

theorem make_api_call_invalid_json:
  assumes "http_get L (calls s) (the_request (self s) endpoint params headers) = Inr r"
    and "status_code r = 200"
    and "json_loads L (content r) = Inl (JSONDecodeError d)"
  shows "fst (make_api_call L endpoint params headers s)
           = Inl (ValueError ''Invalid JSON response.'')
         \<and> fst (make_api_call L endpoint params headers s) \<noteq> Inl (HTTPError m)"
  using assms by (simp add: make_api_call_cases Let_def)

theorem make_api_call_invalid_json_witness:
  "fst (make_api_call example_library ''/admin/api.php'' None None (example_state ''http://garbled''))
     = Inl (ValueError ''Invalid JSON response.'')"
  using make_api_call_invalid_json [of example_library "example_state ''http://garbled''"
      "''/admin/api.php''" None None
      "\<lparr>status_code = 200, reason = ''OK'',
        resp_url = ''http://garbled/admin/api.php'', content = ''not json''\<rparr>"
      "''Expecting value: line 1 column 1 (char 0)''"]
  by (simp add: example_library_def example_state_def API_init_def the_request_def
      nested_body_neq)

text \<open>
  The claim as it was stated fails twice. On the body \<open>not json\<close> the message is not
  the one it quotes, which has no full stop. And a body that is not valid JSON need not
  end in \<open>ValueError\<close> at all: a thousand opening brackets, answered with status 200,
  leave \<open>make_api_call\<close> as the \<open>RecursionError\<close> of the decoder, which the
  \<open>except\<close> clause does not name.
\<close>

theorem make_api_call_invalid_json_counterexample:
  "http_get example_library []
       \<lparr>req_url = ''http://garbled/admin/api.php'', req_params = None, req_headers = None\<rparr>
     = Inr \<lparr>status_code = 200, reason = ''OK'',
            resp_url = ''http://garbled/admin/api.php'', content = ''not json''\<rparr>
   \<and> json_loads example_library ''not json''
       = Inl (JSONDecodeError ''Expecting value: line 1 column 1 (char 0)'')
   \<and> fst (make_api_call example_library ''/admin/api.php'' None None
             (example_state ''http://garbled''))
       \<noteq> Inl (ValueError ''Invalid JSON response'')
   \<and> http_get example_library []
         \<lparr>req_url = ''http://nested/admin/api.php'', req_params = None, req_headers = None\<rparr>
       = Inr \<lparr>status_code = 200, reason = ''OK'',
              resp_url = ''http://nested/admin/api.php'', content = nested_body\<rparr>
   \<and> fst (make_api_call example_library ''/admin/api.php'' None None
             (example_state ''http://nested''))
       = Inl (RecursionError (''maximum recursion depth exceeded while decoding ''
                                @ ''a JSON array from a unicode string''))"
  by (simp add: make_api_call_cases Let_def example_library_def example_state_def API_init_def
      the_request_def nested_body_neq)

text \<open>
  Claim C5 says that \<open>validate_api_url\<close> returns a boolean for every string and never
  raises. \<open>urlparse\<close> raises \<open>ValueError\<close> on a network location with an unmatched
  square bracket, and \<open>validate_api_url\<close> has no handler: on \<open>http://[\<close> it raises
  instead of returning \<open>False\<close>, whatever the two library parameters are.
\<close>

theorem validate_api_url_raises:
  "validate_api_url U ''http://['' = Inl (ValueError ''Invalid IPv6 URL'')"
  by code_simp

theorem validate_api_url_raises_witness:
  "validate_api_url example_urllib ''http://['' = Inl (ValueError ''Invalid IPv6 URL'')
   \<and> validate_api_url example_urllib ''http://['' \<noteq> Inr False"
  using validate_api_url_raises [of example_urllib] by simp

text \<open>
  Claim C6. \<open>validate_api_url\<close> returns \<open>True\<close> exactly when \<open>urlparse\<close> returns a
  result whose scheme and network location are both non-empty. It is \<open>True\<close> on
  \<open>http://pihole.local\<close> and \<open>https://10.0.0.5:8080\<close>, and \<open>False\<close> on the empty
  string, on \<open>pihole.local\<close> and on \<open>http://\<close>.
\<close>

theorem validate_api_url_true_iff:
  "(validate_api_url U url = Inr True)
     = (\<exists>r. urlparse U url = Inr r \<and> scheme r \<noteq> '''' \<and> netloc r \<noteq> '''')
   \<and> validate_api_url U ''http://pihole.local'' = Inr True
   \<and> validate_api_url U ''https://10.0.0.5:8080'' = Inr True
   \<and> validate_api_url U '''' = Inr False
   \<and> validate_api_url U ''pihole.local'' = Inr False
   \<and> validate_api_url U ''http://'' = Inr False"
proof -
  have "(validate_api_url U url = Inr True)
     = (\<exists>r. urlparse U url = Inr r \<and> scheme r \<noteq> '''' \<and> netloc r \<noteq> '''')"
    by (cases "urlparse U url") (auto simp: validate_api_url_def)
  then show ?thesis
    by (simp only: validate_example_1 validate_example_2 validate_example_3
        validate_example_4 validate_example_5 simp_thms)
qed

theorem validate_api_url_true_iff_witness:
  "\<exists>r. urlparse example_urllib ''http://[::1]:8080/admin'' = Inr r
        \<and> scheme r \<noteq> '''' \<and> netloc r \<noteq> ''''"
  using validate_api_url_true_iff [of example_urllib "''http://[::1]:8080/admin''"]
    validate_example_6 by simp

text \<open>
  Claim C7. \<open>make_api_call\<close> makes exactly one call of \<open>requests.get\<close>; its URL is the
  concatenation of \<open>api_url\<close> and \<open>endpoint\<close>, character for character, and \<open>params\<close>
  and \<open>headers\<close> are the \<open>params=\<close> and \<open>headers=\<close> arguments as given (\<open>params=\<close>
  is what \<open>requests\<close> encodes into the query string).
\<close>

theorem make_api_call_request:
  "gets (calls (snd (make_api_call L endpoint params headers s)))
     = gets (calls s) @ [\<lparr>req_url = api_url (self s) @ endpoint,
                           req_params = params, req_headers = headers\<rparr>]"
  by (simp add: make_api_call_gets the_request_def)

theorem make_api_call_request_witness:
  "gets (calls (snd (make_api_call example_library ''/admin/api.php'' (Some [(''auth'', PStr ''x'')])
                       None (example_state ''http://pihole.local/''))))
     = [\<lparr>req_url = ''http://pihole.local//admin/api.php'',
         req_params = Some [(''auth'', PStr ''x'')], req_headers = None\<rparr>]
   \<and> gets (calls (snd (make_api_call example_library ''admin/api.php'' None
                       (Some [(''Accept'', ''application/json'')])
                       (example_state ''http://pihole.local''))))
     = [\<lparr>req_url = ''http://pihole.localadmin/api.php'',
         req_params = None, req_headers = Some [(''Accept'', ''application/json'')]\<rparr>]"
  using make_api_call_request [of example_library "''/admin/api.php''"
      "Some [(''auth'', PStr ''x'')]" None "example_state ''http://pihole.local/''"]
    make_api_call_request [of example_library "''admin/api.php''" None
      "Some [(''Accept'', ''application/json'')]" "example_state ''http://pihole.local''"]
  by (simp add: example_state_def API_init_def)

text \<open>
  Claim C8. For every \<open>disable_time\<close>, \<open>disable_adblocker\<close> is one \<open>make_api_call\<close> on
  the endpoint \<open>/admin/api.php\<close> with the parameters \<open>disable\<close>, bound to
  \<open>disable_time\<close> as it was given, and \<open>auth\<close>, bound to the API key, and with no
  headers; the GET it issues carries exactly these.
\<close>

theorem disable_adblocker_request:
  "gets (calls (snd (disable_adblocker L t s)))
     = gets (calls s) @ [\<lparr>req_url = api_url (self s) @ ''/admin/api.php'',
                           req_params = Some [(''disable'', PNum t),
                                              (''auth'', PStr (api_key (self s)))],
                           req_headers = None\<rparr>]
   \<and> snd (disable_adblocker L t s)
       = snd (make_api_call L ''/admin/api.php''
                (Some [(''disable'', PNum t), (''auth'', PStr (api_key (self s)))]) None s)"
  by (simp add: disable_adblocker_snd make_api_call_gets the_request_def disable_params_def)

theorem disable_adblocker_request_witness:
  "gets (calls (snd (disable_adblocker example_library 0 (example_state ''http://pihole.local''))))
     = [\<lparr>req_url = ''http://pihole.local/admin/api.php'',
         req_params = Some [(''disable'', PNum 0), (''auth'', PStr ''key'')],
         req_headers = None\<rparr>]
   \<and> gets (calls (snd (disable_adblocker example_library (- 5)
                         (example_state ''http://pihole.local''))))
     = [\<lparr>req_url = ''http://pihole.local/admin/api.php'',
         req_params = Some [(''disable'', PNum (- 5)), (''auth'', PStr ''key'')],
         req_headers = None\<rparr>]"
  using disable_adblocker_request [THEN conjunct1, of example_library 0
      "example_state ''http://pihole.local''"]
    disable_adblocker_request [THEN conjunct1, of example_library "- 5"
      "example_state ''http://pihole.local''"]
  by (simp add: example_state_def API_init_def)

text \<open>
  Claim C9. \<open>__init__\<close> stores the two strings as given; \<open>make_api_call\<close> and
  \<open>disable_adblocker\<close> leave the object as it was (the validators are static methods and
  are not given the object); two \<open>disable_adblocker\<close> calls in a row issue two GETs
  with the same request, built from the unchanged attributes.
\<close>

theorem API_attributes_unchanged:
  "api_url (API_init url key) = url
   \<and> api_key (API_init url key) = key
   \<and> self (snd (make_api_call L endpoint params headers s)) = self s
   \<and> self (snd (disable_adblocker L t s)) = self s
   \<and> gets (calls (snd (disable_adblocker L t (snd (disable_adblocker L t s)))))
       = gets (calls s)
         @ [the_request (self s) ''/admin/api.php'' (Some (disable_params t (self s))) None,
            the_request (self s) ''/admin/api.php'' (Some (disable_params t (self s))) None]"
  by (simp add: API_init_def make_api_call_self disable_adblocker_snd make_api_call_gets)

theorem API_attributes_unchanged_witness:
  "self (snd (disable_adblocker example_library 30 (example_state ''http://forbidden'')))
     = \<lparr>api_url = ''http://forbidden'', api_key = ''key''\<rparr>
   \<and> gets (calls (snd (disable_adblocker example_library 30
                (snd (disable_adblocker example_library 30 (example_state ''http://forbidden''))))))
     = [\<lparr>req_url = ''http://forbidden/admin/api.php'',
          req_params = Some [(''disable'', PNum 30), (''auth'', PStr ''key'')],
          req_headers = None\<rparr>,
        \<lparr>req_url = ''http://forbidden/admin/api.php'',
          req_params = Some [(''disable'', PNum 30), (''auth'', PStr ''key'')],
          req_headers = None\<rparr>]"
  using API_attributes_unchanged [of "''http://forbidden''" "''key''" example_library
      "''''" None None "example_state ''http://forbidden''" 30]
  by (simp add: example_state_def API_init_def the_request_def disable_params_def)

text \<open>
  Claim C10, as amended. On a response with status 200, \<open>raise_for_status\<close> returns
  without raising, so the 200 branch of \<open>make_api_call\<close> never fails with
  \<open>HTTPError\<close>: it returns the decoded body, or it fails as \<open>response.json()\<close>
  fails, with \<open>ValueError\<close> in place of a \<open>JSONDecodeError\<close> and with the
  decoder's own \<open>ValueError\<close> or \<open>RecursionError\<close> as it is.
\<close>

theorem raise_for_status_never_raises_on_200:
  assumes "http_get L (calls s) (the_request (self s) endpoint params headers) = Inr r"
    and "status_code r = 200"
  shows "fst (raise_for_status r s') = Inr ()
         \<and> fst (make_api_call L endpoint params headers s)
             = (case json_loads L (content r) of
                  Inr j \<Rightarrow> Inr j
                | Inl (JSONDecodeError d) \<Rightarrow> Inl (ValueError ''Invalid JSON response.'')
                | Inl (Decoder_ValueError d) \<Rightarrow> Inl (ValueError d)
                | Inl (Decoder_RecursionError d) \<Rightarrow> Inl (RecursionError d))
         \<and> fst (make_api_call L endpoint params headers s) \<noteq> Inl (HTTPError m)"
  using assms
  by (simp add: raise_for_status_def make_api_call_cases Let_def
      split: sum.splits json_exception.splits)

theorem raise_for_status_never_raises_on_200_witness:
  "fst (raise_for_status \<lparr>status_code = 200, reason = ''OK'',
                           resp_url = ''http://garbled/admin/api.php'', content = ''not json''\<rparr>
          (example_state ''http://garbled'')) = Inr ()
   \<and> fst (make_api_call example_library ''/admin/api.php'' None None
             (example_state ''http://garbled'')) = Inl (ValueError ''Invalid JSON response.'')"
  using raise_for_status_never_raises_on_200 [of example_library "example_state ''http://garbled''"
      "''/admin/api.php''" None None
      "\<lparr>status_code = 200, reason = ''OK'',
        resp_url = ''http://garbled/admin/api.php'', content = ''not json''\<rparr>"
      "example_state ''http://garbled''"]
  by (simp add: example_library_def example_state_def API_init_def the_request_def
      nested_body_neq)

text \<open>
  The claim as it was stated names the JSON-decode error as the only failure of the
  branch. On a thousand opening brackets with status 200, \<open>raise_for_status\<close> returns
  and the call still fails, with a \<open>RecursionError\<close> that is neither the converted
  decode error nor an \<open>HTTPError\<close>.
\<close>

theorem raise_for_status_only_failure_counterexample:
  "status_code \<lparr>status_code = 200, reason = ''OK'',
                resp_url = ''http://nested/admin/api.php'', content = nested_body\<rparr> = 200
   \<and> fst (raise_for_status \<lparr>status_code = 200, reason = ''OK'',
                             resp_url = ''http://nested/admin/api.php'', content = nested_body\<rparr>
            (example_state ''http://nested'')) = Inr ()
   \<and> json_loads example_library nested_body
       = Inl (Decoder_RecursionError (''maximum recursion depth exceeded while decoding ''
                                        @ ''a JSON array from a unicode string''))
   \<and> fst (make_api_call example_library ''/admin/api.php'' None None
             (example_state ''http://nested''))
       \<noteq> Inl (ValueError ''Invalid JSON response.'')
   \<and> fst (make_api_call example_library ''/admin/api.php'' None None
             (example_state ''http://nested''))
       = Inl (RecursionError (''maximum recursion depth exceeded while decoding ''
                                @ ''a JSON array from a unicode string''))"
  by (simp add: raise_for_status_def make_api_call_cases Let_def example_library_def
      example_state_def API_init_def the_request_def nested_body_neq)

end
